theory Spec2Isabelle
  imports Main
begin

section \<open>Syntax trees\<close>

text \<open>
  The node classes (\<open>TalonCommand\<close>, \<open>TalonBlock\<close>, ...) are dataclasses of the package
  \<open>tree_sitter_talon\<close>. Every node has the attributes \<open>text\<close>, \<open>type_name\<close>,
  \<open>start_position\<close> and \<open>end_position\<close>; a class adds its named fields (\<open>rule\<close> and
  \<open>script\<close> of a command, \<open>key\<close> and \<open>pattern\<close> of a match, ...) and the list
  \<open>children\<close> of its remaining children. A node is modelled by the name of its class,
  these four attributes, its named fields and its children. Reading a field a node does
  not have is Python's \<open>AttributeError\<close>. \<open>isinstance\<close> is equality of class names
  (no node class is taken to inherit from another one), and a node is not iterable.
\<close>

type_synonym point = "nat \<times> nat"

record info =
  node_text :: string
  type_name :: string
  start_position :: point
  end_position :: point

datatype node =
  Node (class_name: string) (node_info: info) (node_fields: "(string \<times> node) list")
    (children: "node list")

datatype assertion =
    in_header_expected
  | only_one_non_comment_child "string list" "node list"
  | no_non_comment_nodes "string list" "node list"

text \<open>
  The exceptions. \<open>TypeError c\<close> is the \<open>TypeError(type(node))\<close> that the code raises
  for a node of class \<open>c\<close>. \<open>TypeError_arguments f\<close> is the \<open>TypeError\<close> that Python
  itself raises when the method \<open>f\<close> is called with positional arguments that it
  takes by keyword only.
\<close>

datatype error =
    ParseError node
  | TypeError string
  | TypeError_arguments string
  | AttributeError string
  | AssertionError assertion

definition bind :: "error + 'a \<Rightarrow> ('a \<Rightarrow> error + 'b) \<Rightarrow> error + 'b" where
  "bind m f = (case m of Inl e \<Rightarrow> Inl e | Inr x \<Rightarrow> f x)"

definition attr :: "node \<Rightarrow> string \<Rightarrow> error + node" where
  "attr node name =
     (case map_of (node_fields node) name of
        None \<Rightarrow> Inl (AttributeError name)
      | Some x \<Rightarrow> Inr x)"

definition is_comment :: "node \<Rightarrow> bool" where
  "is_comment node = (class_name node = ''TalonComment'')"

text \<open>\<open>isinstance(child, node_type)\<close>: \<open>None\<close> stands for the base class \<open>Node\<close>.\<close>

definition isinstance :: "node \<Rightarrow> string option \<Rightarrow> bool" where
  "isinstance node node_type =
     (case node_type of None \<Rightarrow> True | Some c \<Rightarrow> class_name node = c)"

definition TalonComment :: "info \<Rightarrow> node" where
  "TalonComment i = Node ''TalonComment'' i [] []"

definition TalonBlock :: "info \<Rightarrow> node list \<Rightarrow> node" where
  "TalonBlock i cs = Node ''TalonBlock'' i [] cs"

section \<open>Documents\<close>

text \<open>
  The document combinators come from the package \<open>doc_printer\<close>. A document is modelled
  by the term of combinators that built it: \<open>a / b\<close> is \<open>Cat [a, b]\<close>, \<open>a // b\<close> is
  \<open>Cat [a, Space, b]\<close>, \<open>sep.join(ds)\<close> is \<open>Join sep ds\<close>, \<open>a | b\<close> is \<open>Alt [a, b]\<close>,
  \<open>Text.words(s, collapse_whitespace=c)\<close> is \<open>Words s (Some c)\<close> (\<open>None\<close> when the
  argument is left out), \<open>row(c1, c2, table_type=t, min_col_widths=w)\<close> is
  \<open>Row [c1, c2] t (Some w)\<close>. A combinator that is handed a generator consumes it at once.
  \<open>create_tables\<close> is a parameter of the model (\<open>ct\<close>).
\<close>

datatype doc =
    Empty
  | Fail
  | Line
  | Space
  | Text string
  | Words string "bool option"
  | Cat "doc list"
  | Join doc "doc list"
  | Nest int "doc list"
  | Alt "doc list"
  | Row "doc list" string "int list option"

definition enclose :: "string \<Rightarrow> doc list \<Rightarrow> string \<Rightarrow> doc" where
  "enclose l ds r = Cat ([Text l] @ ds @ [Text r])"

definition parens :: "doc list \<Rightarrow> doc" where
  "parens ds = enclose ''('' ds '')''"

definition braces :: "doc list \<Rightarrow> doc" where
  "braces ds = enclose ''{'' ds ''}''"

definition brackets :: "doc list \<Rightarrow> doc" where
  "brackets ds = enclose ''['' ds '']''"

definition angles :: "doc list \<Rightarrow> doc" where
  "angles ds = enclose ''<'' ds ''>''"

definition double_quote :: "doc list \<Rightarrow> doc" where
  "double_quote ds = enclose [CHR 0x22] ds [CHR 0x22]"

text \<open>\<open>str.strip()\<close> and \<open>str.lstrip("#")\<close>, on the code points below 256.\<close>

definition is_space :: "char \<Rightarrow> bool" where
  "is_space c =
     ((of_char c :: nat) \<in> set [9, 10, 11, 12, 13, 28, 29, 30, 31, 32, 133, 160])"

definition lstrip :: "(char \<Rightarrow> bool) \<Rightarrow> string \<Rightarrow> string" where
  "lstrip p s = dropWhile p s"

definition strip :: "string \<Rightarrow> string" where
  "strip s = rev (lstrip is_space (rev (lstrip is_space s)))"

section \<open>The formatter\<close>

text \<open>
  \<open>align_match_context\<close> and \<open>align_short_commands\<close> are \<open>Union[bool, int]\<close>.
  \<open>truthy\<close> is Python's truth value, \<open>is_True\<close> the test \<open>x is True\<close>.
\<close>

datatype align = Flag bool | Width int

record TalonFormatter =
  indent_size :: int
  align_match_context :: align
  align_short_commands :: align

fun truthy :: "align \<Rightarrow> bool" where
  "truthy (Flag b) = b"
| "truthy (Width n) = (n \<noteq> 0)"

fun is_True :: "align \<Rightarrow> bool" where
  "is_True (Flag b) = b"
| "is_True (Width n) = False"

fun align_value :: "align \<Rightarrow> int" where
  "align_value (Flag b) = (if b then 1 else 0)"
| "align_value (Width n) = n"

definition is_short_command :: "node \<Rightarrow> error + bool" where
  "is_short_command node =
     bind (attr node ''script'') (\<lambda>script.
       Inr (length (children node) + length (children script) = 1))"

definition block_with_comments :: "node list \<Rightarrow> node \<Rightarrow> node" where
  "block_with_comments comments block =
     TalonBlock
       \<lparr>node_text = node_text (node_info block),
        type_name = type_name (node_info block),
        start_position = start_position (node_info block),
        end_position = end_position (node_info block)\<rparr>
       (comments @ children block)"

text \<open>The method \<open>with_comments\<close> that \<open>extra.py\<close> adds to \<open>TalonBlock\<close>, and \<open>is_short\<close>.\<close>

definition TalonBlock_with_comments :: "node \<Rightarrow> node list \<Rightarrow> node" where
  "TalonBlock_with_comments self comments =
     TalonBlock
       \<lparr>node_text = node_text (node_info self),
        type_name = type_name (node_info self),
        start_position = start_position (node_info self),
        end_position = end_position (node_info self)\<rparr>
       (comments @ children self)"

definition TalonCommandDeclaration_is_short :: "node \<Rightarrow> error + bool" where
  "TalonCommandDeclaration_is_short self =
     bind (attr self ''script'') (\<lambda>script.
       Inr (length (children self) + length (children script) = 1))"

subsection \<open>The comment buffer\<close>

text \<open>
  \<open>_comment_buffer\<close> holds the comments met inline. Only instances of \<open>TalonComment\<close>
  are ever appended; the buffer keeps the attributes of each (a comment is a leaf).
\<close>

type_synonym buffer = "info list"

fun store_comments ::
  "node list \<Rightarrow> string option \<Rightarrow> buffer \<Rightarrow> error + (node list \<times> buffer)" where
  "store_comments [] node_type buf = Inr ([], buf)"
| "store_comments (child # rest) node_type buf =
     (if is_comment child then store_comments rest node_type (buf @ [node_info child])
      else if isinstance child node_type then
        bind (store_comments rest node_type buf) (\<lambda>(ys, buf1). Inr (child # ys, buf1))
      else Inl (TypeError (class_name child)))"

definition get_comments :: "buffer \<Rightarrow> node list \<times> buffer" where
  "get_comments buf = (map TalonComment buf, [])"

definition assert_only_comments :: "node list \<Rightarrow> buffer \<Rightarrow> error + buffer" where
  "assert_only_comments cs buf =
     bind (store_comments cs (Some ''TalonComment'') buf) (\<lambda>(rest, buf1).
       if length rest = 0 then Inr buf1
       else Inl (AssertionError
              (no_non_comment_nodes (map (\<lambda>n. type_name (node_info n)) rest) rest)))"

definition get_node_with_type ::
  "node list \<Rightarrow> string option \<Rightarrow> buffer \<Rightarrow> error + (node \<times> buffer)" where
  "get_node_with_type cs node_type buf =
     bind (store_comments cs node_type buf) (\<lambda>(rest, buf1).
       if length rest = 1 then Inr (hd rest, buf1)
       else Inl (AssertionError
              (only_one_non_comment_child (map (\<lambda>n. type_name (node_info n)) rest) rest)))"

definition get_node :: "node list \<Rightarrow> buffer \<Rightarrow> error + (node \<times> buffer)" where
  "get_node cs buf = get_node_with_type cs None buf"

subsection \<open>Comments\<close>

definition format_TalonComment :: "info \<Rightarrow> doc" where
  "format_TalonComment i =
     Cat [Text ''#'', Words (lstrip (\<lambda>c. c = CHR ''#'') (node_text i)) (Some False)]"

definition format_TalonDocstring :: "info \<Rightarrow> doc" where
  "format_TalonDocstring i =
     Cat [Text ''###'', Words (lstrip (\<lambda>c. c = CHR ''#'') (node_text i)) (Some False)]"

subsection \<open>Generators\<close>

text \<open>
  \<open>format_block\<close> and \<open>format_block_match\<close> are generators of lines. A generator is
  modelled by the list of lines its consumer ends up with, and the comment buffer
  afterwards. Most consumers (\<open>Line.join\<close>, \<open>list\<close>, \<open>extend\<close>) only collect the lines.
  The loop of the \<open>TalonBlock\<close> handler does more: before it passes a line on it yields
  the formatted comments of the buffer and empties it,
  \<^verbatim>\<open>for line in self.format_block(child): yield from self.get_formatted_comments(); yield line\<close>.
  The parameter \<open>n\<close> counts such loops between a generator and the consumer that collects:
  a line yielded under \<open>n > 0\<close> loops arrives behind the buffered comments. As
  \<open>get_comments\<close> iterates over the live buffer and clears it at the end, under
  \<open>n > 1\<close> loops the first comment arrives once more for every further loop.
\<close>

definition emit :: "nat \<Rightarrow> doc \<Rightarrow> buffer \<Rightarrow> doc list \<times> buffer" where
  "emit n line buf =
     (if n = 0 \<or> buf = [] then ([line], buf)
      else (map format_TalonComment buf
              @ replicate (n - 1) (format_TalonComment (hd buf)) @ [line], []))"

fun emit_list :: "nat \<Rightarrow> doc list \<Rightarrow> buffer \<Rightarrow> doc list \<times> buffer" where
  "emit_list n [] buf = ([], buf)"
| "emit_list n (line # rest) buf =
     (case emit n line buf of (out1, buf1) \<Rightarrow>
        (case emit_list n rest buf1 of (out2, buf2) \<Rightarrow> (out1 @ out2, buf2)))"

text \<open>\<open>yield from self.get_formatted_comments()\<close>, under \<open>n\<close> loops.\<close>

definition get_formatted_comments :: "nat \<Rightarrow> buffer \<Rightarrow> doc list \<times> buffer" where
  "get_formatted_comments n buf =
     (if buf = [] then ([], [])
      else (map format_TalonComment buf @ replicate n (format_TalonComment (hd buf)), []))"

text \<open>A \<open>for\<close> loop over nodes that yields lines, with the loop's variables as \<open>s\<close>.\<close>

fun for_loop ::
  "('s \<Rightarrow> node \<Rightarrow> buffer \<Rightarrow> error + (doc list \<times> 's \<times> buffer)) \<Rightarrow>
   's \<Rightarrow> node list \<Rightarrow> buffer \<Rightarrow> error + (doc list \<times> 's \<times> buffer)" where
  "for_loop body s [] buf = Inr ([], s, buf)"
| "for_loop body s (child # rest) buf =
     bind (body s child buf) (\<lambda>(out1, s1, buf1).
       bind (for_loop body s1 rest buf1) (\<lambda>(out2, s2, buf2).
         Inr (out1 @ out2, s2, buf2)))"

subsection \<open>Matches and short commands\<close>

definition format_match_keywords :: "bool \<Rightarrow> bool \<Rightarrow> doc list" where
  "format_match_keywords under_and under_not =
     (if under_and then [Text ''and'', Space] else [])
       @ (if under_not then [Text ''not'', Space] else [])"

definition format_match_alternatives :: "TalonFormatter \<Rightarrow> doc \<Rightarrow> doc \<Rightarrow> doc list" where
  "format_match_alternatives self key pattern =
     [Cat [Cat [key, Text '':''], Space, pattern]]
       @ (if truthy (align_match_context self) then
            (if is_True (align_match_context self) then
               [Row [Cat [key, Text '':''], pattern] ''match'' None]
             else
               [Row [Cat [key, Text '':''], pattern] ''match''
                  (Some [align_value (align_match_context self)])])
          else [])"

definition format_short_command :: "TalonFormatter \<Rightarrow> doc \<Rightarrow> doc \<Rightarrow> doc" where
  "format_short_command self rule script =
     (if truthy (align_short_commands self) then
        (if is_True (align_short_commands self) then
           Row [Cat [rule, Text '':''], script] ''command'' None
         else
           Row [Cat [rule, Text '':''], script] ''command''
             (Some [align_value (align_short_commands self)]))
      else Cat [Cat [rule, Text '':''], Space, script])"

subsection \<open>The loop over a source file\<close>

record file_state =
  in_header :: bool
  comment_buffer :: "doc list"
  short_command_buffer :: "doc list"

definition clear_comment_buffer ::
  "nat \<Rightarrow> file_state \<Rightarrow> buffer \<Rightarrow> doc list \<times> file_state \<times> buffer" where
  "clear_comment_buffer n st buf =
     (case emit_list n (comment_buffer st) buf of
        (out, buf1) \<Rightarrow> (out, st\<lparr>comment_buffer := []\<rparr>, buf1))"

definition clear_short_command_buffer ::
  "(doc list \<Rightarrow> doc list) \<Rightarrow> nat \<Rightarrow> file_state \<Rightarrow> buffer
     \<Rightarrow> doc list \<times> file_state \<times> buffer" where
  "clear_short_command_buffer ct n st buf =
     (if short_command_buffer st = [] then ([], st, buf)
      else (case emit_list n (ct (short_command_buffer st)) buf of
              (out, buf1) \<Rightarrow> (out, st\<lparr>short_command_buffer := []\<rparr>, buf1)))"

text \<open>The first body-only node ends the context header.\<close>

definition end_header ::
  "nat \<Rightarrow> file_state \<Rightarrow> buffer \<Rightarrow> doc list \<times> file_state \<times> buffer" where
  "end_header n st buf =
     (case emit n (Text ''-'') buf of
        (out1, buf1) \<Rightarrow>
          (case clear_comment_buffer n st buf1 of
             (out2, st2, buf2) \<Rightarrow> (out1 @ out2, st2\<lparr>in_header := False\<rparr>, buf2)))"

definition body_only :: "node \<Rightarrow> bool" where
  "body_only child =
     (class_name child \<in> set [''TalonIncludeTag'', ''TalonSettings'', ''TalonCommand''])"

text \<open>
  One turn of \<open>for child in node.children\<close> in the \<open>TalonSourceFile\<close> handler;
  \<open>fb m\<close> stands for \<open>self.format_block(child)\<close>, consumed under \<open>m\<close> loops that
  pass its lines on.
\<close>

definition source_file_step ::
  "TalonFormatter \<Rightarrow> (doc list \<Rightarrow> doc list) \<Rightarrow> nat
     \<Rightarrow> (nat \<Rightarrow> buffer \<Rightarrow> error + (doc list \<times> buffer))
     \<Rightarrow> file_state \<Rightarrow> node \<Rightarrow> buffer \<Rightarrow> error + (doc list \<times> file_state \<times> buffer)" where
  "source_file_step self ct n fb st child buf =
     (if in_header st \<and> is_comment child then
        Inr ([], st\<lparr>comment_buffer :=
                      comment_buffer st @ [format_TalonComment (node_info child)]\<rparr>, buf)
      else if class_name child = ''TalonContext'' then
        (if \<not> in_header st then Inl (AssertionError in_header_expected)
         else (case clear_comment_buffer n st buf of
                 (out1, st1, buf1) \<Rightarrow>
                   bind (fb n buf1) (\<lambda>(out2, buf2). Inr (out1 @ out2, st1, buf2))))
      else
        (case (if in_header st \<and> body_only child then end_header n st buf
               else ([], st, buf)) of
           (out1, st1, buf1) \<Rightarrow>
             if is_True (align_short_commands self) then
               bind (if class_name child = ''TalonCommand'' then is_short_command child
                     else Inr False) (\<lambda>short.
                 if short then
                   bind (fb 0 buf1) (\<lambda>(ls, buf2).
                     Inr (out1,
                          st1\<lparr>short_command_buffer := short_command_buffer st1 @ ls\<rparr>,
                          buf2))
                 else
                   (case clear_short_command_buffer ct n st1 buf1 of
                      (out2, st2, buf2) \<Rightarrow>
                        bind (fb n buf2) (\<lambda>(out3, buf3).
                          Inr (out1 @ out2 @ out3, st2, buf3))))
             else
               bind (fb n buf1) (\<lambda>(out2, buf2). Inr (out1 @ out2, st1, buf2))))"

text \<open>After the loop: the header ends if it has not, and the short commands left go out.\<close>

definition source_file_end ::
  "TalonFormatter \<Rightarrow> (doc list \<Rightarrow> doc list) \<Rightarrow> nat \<Rightarrow> file_state \<Rightarrow> buffer
     \<Rightarrow> doc list \<times> file_state \<times> buffer" where
  "source_file_end self ct n st buf =
     (case (if in_header st then
              (case emit n (Text ''-'') buf of
                 (out1, buf1) \<Rightarrow>
                   (case clear_comment_buffer n st buf1 of
                      (out2, st2, buf2) \<Rightarrow> (out1 @ out2, st2, buf2)))
            else ([], st, buf)) of
        (out1, st1, buf1) \<Rightarrow>
          if is_True (align_short_commands self) then
            (case clear_short_command_buffer ct n st1 buf1 of
               (out2, st2, buf2) \<Rightarrow> (out1 @ out2, st2, buf2))
          else (out1, st1, buf1))"

subsection \<open>Termination of the formatter\<close>

text \<open>
  The handlers recurse on fields and children, and the handlers of \<open>TalonSettings\<close> and
  \<open>TalonCommand\<close> on a block built by \<open>block_with_comments\<close>. The measure \<open>weight\<close>
  counts a comment without fields and children as nothing, so that the comments put in
  front of a block do not make it larger.
\<close>

lemma bind_cong [fundef_cong]:
  "m = m' \<Longrightarrow> (\<And>x. m' = Inr x \<Longrightarrow> f x = g x) \<Longrightarrow> bind m f = bind m' g"
  by (auto simp: bind_def split: sum.splits)

lemma for_loop_cong [fundef_cong]:
  "xs = ys \<Longrightarrow> s = t \<Longrightarrow> buf = buf'
     \<Longrightarrow> (\<And>s x b. x \<in> set ys \<Longrightarrow> body s x b = body' s x b)
     \<Longrightarrow> for_loop body s xs buf = for_loop body' t ys buf'"
proof (induction ys arbitrary: xs s t buf buf')
  case Nil
  then show ?case by simp
next
  case (Cons y ys)
  have "for_loop body u ys b = for_loop body' u ys b" for u b
    by (rule Cons.IH) (simp_all add: Cons.prems)
  then show ?case using Cons.prems by (simp add: bind_def)
qed

fun weight :: "node \<Rightarrow> nat" where
  "weight (Node k i fs cs) =
     (if k = ''TalonComment'' \<and> fs = [] \<and> cs = [] then 0
      else 1 + sum_list (map (\<lambda>(name, x). Suc (weight x)) fs) + sum_list (map weight cs))"

lemma member_weight_le: "x \<in> set xs \<Longrightarrow> weight x \<le> sum_list (map weight xs)"
  by (induction xs) auto

lemma weight_not_comment:
  "class_name node \<noteq> ''TalonComment'' \<Longrightarrow>
     weight node = 1 + sum_list (map (\<lambda>(name, x). Suc (weight x)) (node_fields node))
                     + sum_list (map weight (children node))"
  by (cases node) simp

lemma weight_children_le: "sum_list (map weight (children node)) \<le> weight node"
  by (cases node) simp

lemma map_of_weight:
  "map_of fs name = Some x \<Longrightarrow> Suc (weight x) \<le> sum_list (map (\<lambda>(name, x). Suc (weight x)) fs)"
  by (induction fs) (auto split: if_splits)

lemma attr_weight:
  "attr node name = Inr x \<Longrightarrow>
     weight x + 2 + sum_list (map weight (children node)) \<le> weight node"
  by (cases node) (auto simp: attr_def split: option.splits dest!: map_of_weight)

lemma store_comments_subset:
  "store_comments cs t buf = Inr (rest, buf') \<Longrightarrow>
     set rest \<subseteq> set cs \<and> (\<forall>x \<in> set rest. isinstance x t)"
  by (induction cs t buf arbitrary: rest buf' rule: store_comments.induct)
     (auto simp: bind_def split: if_splits sum.splits)

lemma get_node_with_type_member:
  "get_node_with_type cs t buf = Inr (x, buf') \<Longrightarrow> x \<in> set cs \<and> isinstance x t"
  by (auto simp: get_node_with_type_def bind_def length_Suc_conv
           split: sum.splits if_splits dest!: store_comments_subset)

lemma attr_weight_less [simp]: "attr node name = Inr x \<Longrightarrow> weight x < weight node"
  using attr_weight [of node name x] by simp

lemma children_weight_less [simp]:
  "class_name node \<noteq> ''TalonComment'' \<Longrightarrow>
     sum_list (map weight (children node)) < weight node"
  by (simp add: weight_not_comment)

lemma child_weight_less [simp]:
  assumes "x \<in> set (children node)" and "class_name node \<noteq> ''TalonComment''"
  shows "weight x < weight node"
  using member_weight_le [OF assms(1)] children_weight_less [OF assms(2)] by simp

lemma get_node_weight_less [simp]:
  "get_node (children node) buf = Inr (a, b) \<Longrightarrow> class_name node \<noteq> ''TalonComment''
     \<Longrightarrow> weight a < weight node"
  by (auto simp: get_node_def dest!: get_node_with_type_member)

lemma weight_block_with_comments:
  "weight (block_with_comments cs block)
     = 1 + sum_list (map weight cs) + sum_list (map weight (children block))"
  by (simp add: block_with_comments_def TalonBlock_def)

lemma weight_TalonComment [simp]: "weight (TalonComment i) = 0"
  by (simp add: TalonComment_def)

lemma settings_weight_less [simp]:
  "get_node_with_type (children node) (Some ''TalonBlock'') buf = Inr (block, buf1)
     \<Longrightarrow> class_name node \<noteq> ''TalonComment''
     \<Longrightarrow> weight (block_with_comments (map TalonComment buf2) block) < weight node"
proof -
  assume a: "get_node_with_type (children node) (Some ''TalonBlock'') buf = Inr (block, buf1)"
    and b: "class_name node \<noteq> ''TalonComment''"
  from a have m: "block \<in> set (children node)" and c: "class_name block = ''TalonBlock''"
    by (auto simp: isinstance_def dest!: get_node_with_type_member)
  have "weight (block_with_comments (map TalonComment buf2) block)
          = 1 + sum_list (map weight (children block))"
    by (simp add: weight_block_with_comments comp_def)
  also have "\<dots> \<le> weight block"
    using c by (simp add: weight_not_comment)
  also have "\<dots> < weight node"
    using m b by simp
  finally show ?thesis .
qed

lemma command_weight_less [simp]:
  "attr node ''script'' = Inr script
     \<Longrightarrow> weight (block_with_comments (children node) script) < weight node"
  using attr_weight [of node "''script''" script] weight_children_le [of script]
  by (simp add: weight_block_with_comments)

definition arg_weight ::
  "(TalonFormatter \<times> (doc list \<Rightarrow> doc list) \<times> node \<times> buffer
      + TalonFormatter \<times> (doc list \<Rightarrow> doc list) \<times> nat \<times> node \<times> buffer)
   + (TalonFormatter \<times> (doc list \<Rightarrow> doc list) \<times> nat \<times> bool \<times> bool \<times> node \<times> buffer
      + TalonFormatter \<times> (doc list \<Rightarrow> doc list) \<times> node list \<times> buffer) \<Rightarrow> nat" where
  "arg_weight x =
     (case x of
        Inl (Inl (self, ct, node, buf)) \<Rightarrow> weight node
      | Inl (Inr (self, ct, n, node, buf)) \<Rightarrow> weight node
      | Inr (Inl (self, ct, n, under_and, under_not, node, buf)) \<Rightarrow> weight node
      | Inr (Inr (self, ct, cs, buf)) \<Rightarrow> sum_list (map weight cs))"

definition arg_rank ::
  "(TalonFormatter \<times> (doc list \<Rightarrow> doc list) \<times> node \<times> buffer
      + TalonFormatter \<times> (doc list \<Rightarrow> doc list) \<times> nat \<times> node \<times> buffer)
   + (TalonFormatter \<times> (doc list \<Rightarrow> doc list) \<times> nat \<times> bool \<times> bool \<times> node \<times> buffer
      + TalonFormatter \<times> (doc list \<Rightarrow> doc list) \<times> node list \<times> buffer) \<Rightarrow> nat" where
  "arg_rank x =
     (case x of
        Inl (Inl a) \<Rightarrow> 2
      | Inl (Inr a) \<Rightarrow> 1
      | Inr (Inl a) \<Rightarrow> 0
      | Inr (Inr a) \<Rightarrow> 3)"

subsection \<open>The handlers\<close>

text \<open>
  \<open>format\<close>, \<open>format_block\<close> and \<open>format_block_match\<close> dispatch on the class of the
  node (\<open>singledispatchmethod\<close>); the last branches of each are the body of the
  unregistered default. \<open>format_children\<close> is the loop over
  \<open>store_comments(children, node_type=Node)\<close>, which buffers a comment when the loop
  reaches it.

  The unregistered default of \<open>format_block_match\<close> takes \<open>under_and\<close> and
  \<open>under_not\<close> by keyword only, and it is not a generator: a call that passes them by
  position raises Python's \<open>TypeError\<close> at once. The handlers of \<open>TalonAnd\<close>,
  \<open>TalonNot\<close> and \<open>TalonOr\<close> pass them by position, so for a child that is neither a
  comment nor of a class with a registered handler (\<open>match_registered\<close>) the call
  itself fails, before the body of the default is entered. \<open>format_block\<close> passes them
  by keyword, which every handler accepts.
\<close>

definition match_registered :: "node \<Rightarrow> bool" where
  "match_registered node =
     (class_name node \<in> set [''TalonAnd'', ''TalonNot'', ''TalonOr'', ''TalonMatch''])"

function (sequential)
  format :: "TalonFormatter \<Rightarrow> (doc list \<Rightarrow> doc list) \<Rightarrow> node \<Rightarrow> buffer
               \<Rightarrow> error + (doc \<times> buffer)"
and format_block :: "TalonFormatter \<Rightarrow> (doc list \<Rightarrow> doc list) \<Rightarrow> nat \<Rightarrow> node \<Rightarrow> buffer
               \<Rightarrow> error + (doc list \<times> buffer)"
and format_block_match ::
      "TalonFormatter \<Rightarrow> (doc list \<Rightarrow> doc list) \<Rightarrow> nat \<Rightarrow> bool \<Rightarrow> bool \<Rightarrow> node \<Rightarrow> buffer
               \<Rightarrow> error + (doc list \<times> buffer)"
and format_children :: "TalonFormatter \<Rightarrow> (doc list \<Rightarrow> doc list) \<Rightarrow> node list \<Rightarrow> buffer
               \<Rightarrow> error + (doc list \<times> buffer)"
where
  "format self ct node buf =
     (if class_name node = ''TalonAction'' then
        bind (assert_only_comments (children node) buf) (\<lambda>buf1.
        bind (attr node ''action_name'') (\<lambda>action_name.
        bind (format self ct action_name buf1) (\<lambda>(d1, buf2).
        bind (attr node ''arguments'') (\<lambda>arguments.
        bind (format self ct arguments buf2) (\<lambda>(d2, buf3).
          Inr (Cat [d1, parens [d2]], buf3))))))
      else if class_name node = ''TalonArgumentList'' then
        bind (format_children self ct (children node) buf) (\<lambda>(ds, buf1).
          Inr (Join (Cat [Text '','', Space]) ds, buf1))
      else if class_name node = ''TalonBinaryOperator'' then
        bind (assert_only_comments (children node) buf) (\<lambda>buf1.
        bind (attr node ''left'') (\<lambda>left.
        bind (format self ct left buf1) (\<lambda>(d1, buf2).
        bind (attr node ''operator'') (\<lambda>operator.
        bind (format self ct operator buf2) (\<lambda>(d2, buf3).
        bind (attr node ''right'') (\<lambda>right.
        bind (format self ct right buf3) (\<lambda>(d3, buf4).
          Inr (Cat [Cat [d1, Space, d2], Space, d3], buf4))))))))
      else if class_name node = ''TalonIdentifier'' then
        Inr (Words (node_text (node_info node)) (Some True), buf)
      else if class_name node = ''TalonKeyAction'' then
        bind (assert_only_comments (children node) buf) (\<lambda>buf1.
        bind (attr node ''arguments'') (\<lambda>arguments.
        bind (format self ct arguments buf1) (\<lambda>(d, buf2).
          Inr (Cat [Text ''key'', parens [d]], buf2))))
      else if class_name node = ''TalonOperator'' then
        Inr (Words (node_text (node_info node)) (Some True), buf)
      else if class_name node = ''TalonParenthesizedExpression'' then
        bind (get_node (children node) buf) (\<lambda>(child, buf1).
        bind (format self ct child buf1) (\<lambda>(d, buf2). Inr (parens [d], buf2)))
      else if class_name node = ''TalonRegexEscapeSequence'' then
        (if children node \<noteq> [] then
           bind (format_children self ct (children node) buf) (\<lambda>(ds, buf1).
             Inr (braces ds, buf1))
         else Inr (braces [Empty], buf))
      else if class_name node = ''TalonSleepAction'' then
        bind (assert_only_comments (children node) buf) (\<lambda>buf1.
        bind (attr node ''arguments'') (\<lambda>arguments.
        bind (format self ct arguments buf1) (\<lambda>(d, buf2).
          Inr (Cat [Text ''sleep'', parens [d]], buf2))))
      else if class_name node = ''TalonVariable'' then
        bind (assert_only_comments (children node) buf) (\<lambda>buf1.
        bind (attr node ''variable_name'') (\<lambda>variable_name.
          format self ct variable_name buf1))
      else if class_name node = ''TalonFloat'' then
        Inr (Words (strip (node_text (node_info node))) (Some True), buf)
      else if class_name node = ''TalonInteger'' then
        Inr (Words (strip (node_text (node_info node))) (Some True), buf)
      else if class_name node = ''TalonNumber'' then
        bind (get_node (children node) buf) (\<lambda>(child, buf1). format self ct child buf1)
      else if class_name node = ''TalonImplicitString'' then
        Inr (Words (strip (node_text (node_info node))) (Some True), buf)
      else if class_name node = ''TalonInterpolation'' then
        bind (get_node (children node) buf) (\<lambda>(child, buf1). format self ct child buf1)
      else if class_name node = ''TalonString'' then
        bind (format_children self ct (children node) buf) (\<lambda>(ds, buf1).
          Inr (double_quote ds, buf1))
      else if class_name node = ''TalonStringContent'' then
        Inr (Words (node_text (node_info node)) None, buf)
      else if class_name node = ''TalonStringEscapeSequence'' then
        Inr (Words (node_text (node_info node)) None, buf)
      else if class_name node = ''TalonCapture'' then
        bind (assert_only_comments (children node) buf) (\<lambda>buf1.
        bind (attr node ''capture_name'') (\<lambda>capture_name.
        bind (format self ct capture_name buf1) (\<lambda>(d, buf2). Inr (angles [d], buf2))))
      else if class_name node = ''TalonChoice'' then
        bind (format_children self ct (children node) buf) (\<lambda>(ds, buf1).
          Inr (Join (Cat [Cat [Space, Text ''|''], Space]) ds, buf1))
      else if class_name node = ''TalonEndAnchor'' then
        Inr (Text ''$'', buf)
      else if class_name node = ''TalonList'' then
        bind (assert_only_comments (children node) buf) (\<lambda>buf1.
        bind (attr node ''list_name'') (\<lambda>list_name.
        bind (format self ct list_name buf1) (\<lambda>(d, buf2). Inr (braces [d], buf2))))
      else if class_name node = ''TalonOptional'' then
        bind (get_node (children node) buf) (\<lambda>(child, buf1).
        bind (format self ct child buf1) (\<lambda>(d, buf2). Inr (brackets [d], buf2)))
      else if class_name node = ''TalonParenthesizedRule'' then
        bind (get_node (children node) buf) (\<lambda>(child, buf1).
        bind (format self ct child buf1) (\<lambda>(d, buf2). Inr (parens [d], buf2)))
      else if class_name node = ''TalonRepeat'' then
        bind (get_node (children node) buf) (\<lambda>(child, buf1).
        bind (format self ct child buf1) (\<lambda>(d, buf2). Inr (Cat [d, Text ''*''], buf2)))
      else if class_name node = ''TalonRepeat1'' then
        bind (get_node (children node) buf) (\<lambda>(child, buf1).
        bind (format self ct child buf1) (\<lambda>(d, buf2). Inr (Cat [d, Text ''+''], buf2)))
      else if class_name node = ''TalonRule'' then
        bind (format_children self ct (children node) buf) (\<lambda>(ds, buf1).
          Inr (Cat ds, buf1))
      else if class_name node = ''TalonSeq'' then
        bind (format_children self ct (children node) buf) (\<lambda>(ds, buf1).
          Inr (Join Space ds, buf1))
      else if class_name node = ''TalonStartAnchor'' then
        Inr (Text ''^'', buf)
      else if class_name node = ''TalonWord'' then
        Inr (Words (node_text (node_info node)) None, buf)
      else if class_name node = ''TalonComment'' then
        Inr (format_TalonComment (node_info node), buf)
      else if class_name node = ''TalonDocstring'' then
        Inr (format_TalonDocstring (node_info node), buf)
      else if class_name node \<in> set [''TalonSourceFile'', ''TalonContext'',
                ''TalonIncludeTag'', ''TalonSettings'', ''TalonCommand'', ''TalonBlock'',
                ''TalonAssignment'', ''TalonExpression''] then
        bind (format_block self ct 0 node buf) (\<lambda>(lines, buf1).
          Inr (Join Line lines, buf1))
      else if class_name node = ''TalonError'' then Inl (ParseError node)
      else Inl (TypeError (class_name node)))"
| "format_block self ct n node buf =
     (if class_name node = ''TalonSourceFile'' then
        bind (for_loop (\<lambda>st child b.
                 source_file_step self ct n (\<lambda>m b'. format_block self ct m child b') st child b)
                \<lparr>in_header = True, comment_buffer = [], short_command_buffer = []\<rparr>
                (children node) buf) (\<lambda>(out1, st1, buf1).
          case source_file_end self ct n st1 buf1 of
            (out2, st2, buf2) \<Rightarrow> Inr (out1 @ out2, buf2))
      else if class_name node = ''TalonContext'' then
        bind (for_loop (\<lambda>s child b.
                 bind (format_block self ct 0 child b) (\<lambda>(lines, b1).
                   case get_formatted_comments n b1 of
                     (out1, b2) \<Rightarrow>
                       (case emit_list n lines b2 of
                          (out2, b3) \<Rightarrow> Inr (out1 @ out2, s, b3))))
                () (children node) buf) (\<lambda>(out, s, buf1). Inr (out, buf1))
      else if class_name node = ''TalonIncludeTag'' then
        bind (assert_only_comments (children node) buf) (\<lambda>buf1.
          case get_formatted_comments n buf1 of
            (out1, buf2) \<Rightarrow>
              bind (attr node ''tag'') (\<lambda>tag.
              bind (format self ct tag buf2) (\<lambda>(d, buf3).
                case emit n (Cat [Text ''tag():'', Space, d]) buf3 of
                  (out2, buf4) \<Rightarrow> Inr (out1 @ out2, buf4))))
      else if class_name node = ''TalonSettings'' then
        bind (get_node_with_type (children node) (Some ''TalonBlock'') buf)
          (\<lambda>(block, buf1).
            case get_comments buf1 of
              (comments, buf2) \<Rightarrow>
                bind (format self ct (block_with_comments comments block) buf2)
                  (\<lambda>(d, buf3).
                    case emit n (Cat [Text ''settings():'', Space,
                                      Nest (indent_size self) [Line, d]]) buf3 of
                      (out, buf4) \<Rightarrow> Inr (out, buf4)))
      else if class_name node = ''TalonCommand'' then
        bind (attr node ''rule'') (\<lambda>rule_node.
        bind (format self ct rule_node buf) (\<lambda>(rule, buf1).
          case get_formatted_comments n buf1 of
            (out1, buf2) \<Rightarrow>
              bind (attr node ''script'') (\<lambda>script_node.
              bind (format self ct (block_with_comments (children node) script_node) buf2)
                (\<lambda>(script, buf3).
                  case emit n
                      (Alt [Cat [Cat [rule, Text '':''],
                                 Nest (indent_size self) [Line, script, Line]],
                            if length (children (block_with_comments (children node)
                                                   script_node)) = 1
                            then format_short_command self rule script else Fail])
                      buf3 of
                    (out2, buf4) \<Rightarrow> Inr (out1 @ out2, buf4)))))
      else if class_name node = ''TalonBlock'' then
        bind (for_loop (\<lambda>s child b.
                 bind (format_block self ct (Suc n) child b) (\<lambda>(lines, b1).
                   Inr (lines, s, b1)))
                () (children node) buf) (\<lambda>(out, s, buf1). Inr (out, buf1))
      else if class_name node = ''TalonAssignment'' then
        bind (assert_only_comments (children node) buf) (\<lambda>buf1.
        bind (attr node ''left'') (\<lambda>left.
        bind (format self ct left buf1) (\<lambda>(d1, buf2).
        bind (attr node ''right'') (\<lambda>right.
        bind (format self ct right buf2) (\<lambda>(d2, buf3).
          Inr (emit n (Cat [Cat [d1, Space, Text ''=''], Space, d2]) buf3))))))
      else if class_name node = ''TalonExpression'' then
        bind (assert_only_comments (children node) buf) (\<lambda>buf1.
        bind (attr node ''expression'') (\<lambda>expression.
        bind (format self ct expression buf1) (\<lambda>(d, buf2). Inr (emit n d buf2))))
      else if class_name node = ''TalonComment'' then
        Inr (emit n (format_TalonComment (node_info node)) buf)
      else if class_name node = ''TalonDocstring'' then
        Inr (emit n (format_TalonDocstring (node_info node)) buf)
      else if class_name node \<in> set [''TalonAnd'', ''TalonNot'', ''TalonMatch'', ''TalonOr''] then
        format_block_match self ct n False False node buf
      else if class_name node = ''TalonError'' then Inl (ParseError node)
      else Inl (TypeError (class_name node)))"
| "format_block_match self ct n under_and under_not node buf =
     (if class_name node = ''TalonAnd'' then
        bind (for_loop (\<lambda>under_and child b.
                 if is_comment child then
                   bind (format_block self ct n child b) (\<lambda>(lines, b1).
                     Inr (lines, under_and, b1))
                 else if match_registered child then
                   bind (format_block_match self ct n under_and under_not child b)
                     (\<lambda>(lines, b1). Inr (lines, True, b1))
                 else Inl (TypeError_arguments ''format_block_match''))
                under_and (children node) buf) (\<lambda>(out, s, buf1). Inr (out, buf1))
      else if class_name node = ''TalonNot'' then
        bind (for_loop (\<lambda>under_not child b.
                 if is_comment child then
                   bind (format_block self ct n child b) (\<lambda>(lines, b1).
                     Inr (lines, under_not, b1))
                 else if match_registered child then
                   bind (format_block_match self ct n under_and under_not child b)
                     (\<lambda>(lines, b1). Inr (lines, True, b1))
                 else Inl (TypeError_arguments ''format_block_match''))
                under_not (children node) buf) (\<lambda>(out, s, buf1). Inr (out, buf1))
      else if class_name node = ''TalonOr'' then
        bind (for_loop (\<lambda>s child b.
                 if is_comment child then
                   bind (format_block self ct n child b) (\<lambda>(lines, b1).
                     Inr (lines, s, b1))
                 else if match_registered child then
                   bind (format_block_match self ct 0 under_and under_not child b)
                     (\<lambda>(lines, b1).
                       case get_formatted_comments n b1 of
                         (out1, b2) \<Rightarrow>
                           (case emit_list n lines b2 of
                              (out2, b3) \<Rightarrow> Inr (out1 @ out2, s, b3)))
                 else Inl (TypeError_arguments ''format_block_match''))
                () (children node) buf) (\<lambda>(out, s, buf1). Inr (out, buf1))
      else if class_name node = ''TalonMatch'' then
        bind (assert_only_comments (children node) buf) (\<lambda>buf1.
        bind (attr node ''key'') (\<lambda>key_node.
        bind (format self ct key_node buf1) (\<lambda>(k, buf2).
        bind (attr node ''pattern'') (\<lambda>pattern_node.
        bind (format self ct pattern_node buf2) (\<lambda>(pattern, buf3).
          Inr (emit n
                 (Alt (format_match_alternatives self
                         (Cat (format_match_keywords under_and under_not @ [k])) pattern))
                 buf3))))))
      else if class_name node = ''TalonError'' then Inl (ParseError node)
      else Inl (TypeError (class_name node)))"
| "format_children self ct cs buf =
     bind (for_loop (\<lambda>s child b.
              if is_comment child then Inr ([], s, b @ [node_info child])
              else bind (format self ct child b) (\<lambda>(d, b1). Inr ([d], s, b1)))
             () cs buf) (\<lambda>(out, s, buf1). Inr (out, buf1))"
  by pat_completeness auto
termination
  apply (relation "measures [arg_weight, arg_rank]")
  apply (simp_all add: arg_weight_def arg_rank_def get_comments_def)
  apply (auto dest: member_weight_le)
  done

declare format.simps [simp del] format_block.simps [simp del]
  format_block_match.simps [simp del] format_children.simps [simp del]

section \<open>Notions of the properties\<close>

text \<open>The state in which the loop over a source file starts.\<close>

definition initial_state :: file_state where
  "initial_state = \<lparr>in_header = True, comment_buffer = [], short_command_buffer = []\<rparr>"

text \<open>The children that are not comments, and the \<open>type_name\<close> of each node of a list.\<close>

definition non_comments :: "node list \<Rightarrow> node list" where
  "non_comments cs = filter (\<lambda>x. \<not> is_comment x) cs"

definition type_names :: "node list \<Rightarrow> string list" where
  "type_names cs = map (\<lambda>n. type_name (node_info n)) cs"

text \<open>A short command as the specification words it: one child of the rule and one
  statement of the script, comments not counted.\<close>

definition short_command_as_claimed :: "node \<Rightarrow> error + bool" where
  "short_command_as_claimed node =
     bind (attr node ''rule'') (\<lambda>rule.
     bind (attr node ''script'') (\<lambda>script.
       Inr (length (filter (\<lambda>c. \<not> is_comment c) (children rule)) = 1
            \<and> length (filter (\<lambda>c. \<not> is_comment c) (children script)) = 1)))"

text \<open>
  The loop over a source file, taken apart: what a turn does while the header lasts and
  no body-only node has come, and what it does after the header. Neither yields \<open>-\<close>.
\<close>

definition header_step ::
  "(nat \<Rightarrow> node \<Rightarrow> buffer \<Rightarrow> error + (doc list \<times> buffer))
     \<Rightarrow> file_state \<Rightarrow> node \<Rightarrow> buffer \<Rightarrow> error + (doc list \<times> file_state \<times> buffer)" where
  "header_step fb st child buf =
     (if is_comment child then
        Inr ([], st\<lparr>comment_buffer :=
                      comment_buffer st @ [format_TalonComment (node_info child)]\<rparr>, buf)
      else if class_name child = ''TalonContext'' then
        bind (fb 0 child buf) (\<lambda>(out, buf1).
          Inr (comment_buffer st @ out, st\<lparr>comment_buffer := []\<rparr>, buf1))
      else bind (fb 0 child buf) (\<lambda>(out, buf1). Inr (out, st, buf1)))"

definition body_step ::
  "TalonFormatter \<Rightarrow> (doc list \<Rightarrow> doc list)
     \<Rightarrow> (nat \<Rightarrow> node \<Rightarrow> buffer \<Rightarrow> error + (doc list \<times> buffer))
     \<Rightarrow> file_state \<Rightarrow> node \<Rightarrow> buffer \<Rightarrow> error + (doc list \<times> file_state \<times> buffer)" where
  "body_step self ct fb st child buf =
     (if class_name child = ''TalonContext'' then Inl (AssertionError in_header_expected)
      else if is_True (align_short_commands self) then
        bind (if class_name child = ''TalonCommand'' then is_short_command child
              else Inr False) (\<lambda>short.
          if short then
            bind (fb 0 child buf) (\<lambda>(ls, buf1).
              Inr ([], st\<lparr>short_command_buffer := short_command_buffer st @ ls\<rparr>, buf1))
          else
            bind (fb 0 child buf) (\<lambda>(out, buf1).
              Inr ((if short_command_buffer st = [] then []
                    else ct (short_command_buffer st)) @ out,
                   st\<lparr>short_command_buffer := []\<rparr>, buf1)))
      else bind (fb 0 child buf) (\<lambda>(out, buf1). Inr (out, st, buf1)))"

text \<open>
  The children a source file has in a tree of the parser: comments, a context, include
  tags, settings and commands, with blocks of statements.
\<close>

definition statement_like :: "node \<Rightarrow> bool" where
  "statement_like c =
     (class_name c \<in> set [''TalonAssignment'', ''TalonExpression'', ''TalonComment'',
                           ''TalonDocstring''])"


section \<open>Example trees\<close>

definition mk_info :: "string \<Rightarrow> string \<Rightarrow> info" where
  "mk_info ty t = \<lparr>node_text = t, type_name = ty, start_position = (0, 0), end_position = (0, 0)\<rparr>"

definition mk_leaf :: "string \<Rightarrow> string \<Rightarrow> string \<Rightarrow> node" where
  "mk_leaf c ty t = Node c (mk_info ty t) [] []"

definition mk_branch :: "string \<Rightarrow> string \<Rightarrow> (string \<times> node) list \<Rightarrow> node list \<Rightarrow> node" where
  "mk_branch c ty fs cs = Node c (mk_info ty []) fs cs"

definition ex_comment_a :: node where "ex_comment_a = mk_leaf ''TalonComment'' ''comment'' ''# a''"

definition ex_rule :: node where
  "ex_rule = mk_branch ''TalonRule'' ''rule'' [] [mk_leaf ''TalonWord'' ''word'' ''hello'']"

definition ex_statement :: node where
  "ex_statement = mk_branch ''TalonExpression'' ''expression''
     [(''expression'', mk_leaf ''TalonIdentifier'' ''identifier'' ''x'')] []"

definition ex_block :: node where
  "ex_block = mk_branch ''TalonBlock'' ''block'' [] [ex_statement]"

definition ex_command :: node where
  "ex_command = mk_branch ''TalonCommand'' ''command'' [(''rule'', ex_rule), (''script'', ex_block)] []"

definition ex_command_commented :: node where
  "ex_command_commented =
     mk_branch ''TalonCommand'' ''command'' [(''rule'', ex_rule), (''script'', ex_block)] [ex_comment_a]"

definition ex_match :: node where
  "ex_match = mk_branch ''TalonMatch'' ''match''
     [(''key'', mk_leaf ''TalonIdentifier'' ''identifier'' ''app''),
      (''pattern'', mk_leaf ''TalonImplicitString'' ''implicit_string'' ''chrome'')] []"

definition ex_not :: node where
  "ex_not = mk_branch ''TalonNot'' ''not'' [] [ex_match]"

definition ex_error :: node where
  "ex_error = mk_leaf ''TalonError'' ''ERROR'' ''?''"

definition cfg0 :: TalonFormatter where
  "cfg0 = \<lparr>indent_size = 4, align_match_context = Flag False, align_short_commands = Flag False\<rparr>"




definition ex_settings_two :: node where
  "ex_settings_two = mk_branch ''TalonSettings'' ''settings'' [] [ex_block, ex_error]"

definition ex_paren_empty :: node where
  "ex_paren_empty =
     mk_branch ''TalonParenthesizedExpression'' ''parenthesized_expression'' [] [ex_comment_a]"

definition ex_file_one_command :: node where
  "ex_file_one_command = mk_branch ''TalonSourceFile'' ''source_file'' [] [ex_command]"

definition cfgT :: TalonFormatter where
  "cfgT = \<lparr>indent_size = 4, align_match_context = Flag True, align_short_commands = Flag True\<rparr>"

definition cfgN :: TalonFormatter where
  "cfgN = \<lparr>indent_size = 4, align_match_context = Flag False, align_short_commands = Width 32\<rparr>"

definition ex_file_comment_only :: node where
  "ex_file_comment_only = mk_branch ''TalonSourceFile'' ''source_file'' [] [ex_comment_a]"

definition ex_file_comment_command :: node where
  "ex_file_comment_command =
     mk_branch ''TalonSourceFile'' ''source_file'' [] [ex_comment_a, ex_command]"



section \<open>Properties\<close>

lemma bind_Inl [simp]: "bind (Inl e) f = Inl e"
  by (simp add: bind_def)

lemma bind_Inr [simp]: "bind (Inr x) f = f x"
  by (simp add: bind_def)

lemma bind_eq_Inr:
  "bind m f = Inr y \<longleftrightarrow> (\<exists>x. m = Inr x \<and> f x = Inr y)"
  by (cases m) simp_all

lemma emit_last: "fst (emit n d buf) \<noteq> [] \<and> last (fst (emit n d buf)) = d"
  by (simp add: emit_def)

lemma format_short_command_not_Fail: "format_short_command self rule script \<noteq> Fail"
  by (simp add: format_short_command_def)

lemma format_block_TalonCommand:
  "class_name node = ''TalonCommand'' \<Longrightarrow>
   format_block self ct n node buf =
        bind (attr node ''rule'') (\<lambda>rule_node.
        bind (format self ct rule_node buf) (\<lambda>(rule, buf1).
          case get_formatted_comments n buf1 of
            (out1, buf2) \<Rightarrow>
              bind (attr node ''script'') (\<lambda>script_node.
              bind (format self ct (block_with_comments (children node) script_node) buf2)
                (\<lambda>(script, buf3).
                  case emit n
                      (Alt [Cat [Cat [rule, Text '':''],
                                 Nest (indent_size self) [Line, script, Line]],
                            if length (children (block_with_comments (children node)
                                                   script_node)) = 1
                            then format_short_command self rule script else Fail])
                      buf3 of
                    (out2, buf4) \<Rightarrow> Inr (out1 @ out2, buf4)))))"
  by (subst format_block.simps) simp

text \<open>
  C10. \<open>block_with_comments\<close> returns a \<open>TalonBlock\<close> whose children are the comments
  followed by the children of the block it was given, with the same \<open>text\<close>,
  \<open>type_name\<close>, \<open>start_position\<close> and \<open>end_position\<close>. The function builds a new
  node and a new list and assigns to nothing, so the block it was given is as before.
  The method \<open>with_comments\<close> of \<open>extra.py\<close> is the same function.
\<close>

theorem block_with_comments_frame:
  "children (block_with_comments comments block) = comments @ children block
   \<and> class_name (block_with_comments comments block) = ''TalonBlock''
   \<and> node_text (node_info (block_with_comments comments block)) = node_text (node_info block)
   \<and> type_name (node_info (block_with_comments comments block)) = type_name (node_info block)
   \<and> start_position (node_info (block_with_comments comments block))
        = start_position (node_info block)
   \<and> end_position (node_info (block_with_comments comments block))
        = end_position (node_info block)
   \<and> TalonBlock_with_comments block comments = block_with_comments comments block"
  by (simp add: block_with_comments_def TalonBlock_with_comments_def TalonBlock_def)

text \<open>
  C2, as claimed: \<open>is_short_command\<close> holds exactly when the rule has one child and the
  script one statement, comments not counted. The command \<open>hello: x\<close> with one comment
  of its own has one rule child and one statement, and \<open>is_short_command\<close> is false.
\<close>

theorem is_short_command_counts_comments_counterexample:
  "is_short_command ex_command_commented = Inr False
   \<and> short_command_as_claimed ex_command_commented = Inr True"
  by (simp add: is_short_command_def short_command_as_claimed_def ex_command_commented_def
        ex_rule_def ex_block_def ex_statement_def ex_comment_a_def mk_branch_def mk_leaf_def
        attr_def is_comment_def)

text \<open>
  C2, amended: \<open>is_short_command\<close> holds exactly when the command's own children (its
  comments) and the children of its script block (statements and comments alike) are one
  node in all; the rule is not looked at.
\<close>

theorem is_short_command_iff:
  "is_short_command node = Inr True \<longleftrightarrow>
     (\<exists>script. attr node ''script'' = Inr script
        \<and> ((children node = [] \<and> (\<exists>x. children script = [x]))
           \<or> ((\<exists>c. children node = [c]) \<and> children script = [])))"
proof (cases "attr node ''script''")
  case (Inl e)
  then show ?thesis by (simp add: is_short_command_def)
next
  case (Inr script)
  have "length (children node) + length (children script) = 1 \<longleftrightarrow>
          (children node = [] \<and> (\<exists>x. children script = [x]))
           \<or> ((\<exists>c. children node = [c]) \<and> children script = [])"
    by (cases "children node"; cases "children script") (auto simp: length_Suc_conv)
  with Inr show ?thesis by (simp add: is_short_command_def)
qed

text \<open>
  C3, as claimed: the short layout is offered exactly when the script block has one
  statement, comments not counted. The command \<open>hello: x\<close> with one comment of its own
  has one statement, and the second alternative is \<open>Fail\<close>.
\<close>

theorem short_layout_counts_comments_counterexample:
  "format_block cfg0 id 0 ex_command_commented [] =
     Inr ([Alt [Cat [Cat [Cat [Words ''hello'' None], Text '':''],
                 Nest 4 [Line,
                         Join Line [Cat [Text ''#'', Words '' a'' (Some False)],
                                    Words ''x'' (Some True)],
                         Line]],
               Fail]], [])
   \<and> length (filter (\<lambda>c. \<not> is_comment c) (children ex_block)) = 1"
  by code_simp

text \<open>
  C3, amended: the command's line is \<open>Alt\<close> of the expanded layout and a second
  alternative, which is the short layout \<open>format_short_command\<close> (never \<open>Fail\<close>) when
  the command's own children and the children of its script block are one node in all,
  comments counted, and \<open>Fail\<close> otherwise.
\<close>

theorem short_layout_iff_one_child:
  assumes "class_name node = ''TalonCommand''"
    and "format_block self ct n node buf = Inr (lines, buf')"
  shows "\<exists>script rule sdoc.
           attr node ''script'' = Inr script \<and> lines \<noteq> []
         \<and> last lines =
             Alt [Cat [Cat [rule, Text '':''], Nest (indent_size self) [Line, sdoc, Line]],
                  if length (children node) + length (children script) = 1
                  then format_short_command self rule sdoc else Fail]
         \<and> format_short_command self rule sdoc \<noteq> Fail"
proof -
  from assms obtain p script q where
    s: "attr node ''script'' = Inr script"
    and l: "lines = fst (get_formatted_comments n (snd p))
                @ fst (emit n
          (Alt [Cat [Cat [fst p, Text '':''], Nest (indent_size self) [Line, fst q, Line]],
                if length (children (block_with_comments (children node) script)) = 1
                then format_short_command self (fst p) (fst q) else Fail]) (snd q))"
    by (auto simp: format_block_TalonCommand bind_eq_Inr split_beta)
  have "length (children (block_with_comments (children node) script))
                   = length (children node) + length (children script)"
    by (simp add: block_with_comments_def TalonBlock_def)
  with s l show ?thesis
    using format_short_command_not_Fail [of self "fst p" "fst q"]
    by (intro exI [of _ script] exI [of _ "fst p"] exI [of _ "fst q"])
       (simp add: emit_last)
qed

theorem short_layout_iff_one_child_witness:
  "class_name ex_command_commented = ''TalonCommand''
   \<and> (\<exists>script rule sdoc.
           attr ex_command_commented ''script'' = Inr script
         \<and> last [Alt [Cat [Cat [Cat [Words ''hello'' None], Text '':''],
                 Nest 4 [Line,
                         Join Line [Cat [Text ''#'', Words '' a'' (Some False)],
                                    Words ''x'' (Some True)],
                         Line]],
               Fail]] =
             Alt [Cat [Cat [rule, Text '':''], Nest (indent_size cfg0) [Line, sdoc, Line]],
                  if length (children ex_command_commented) + length (children script) = 1
                  then format_short_command cfg0 rule sdoc else Fail])"
proof -
  have c: "class_name ex_command_commented = ''TalonCommand''"
    by (simp add: ex_command_commented_def mk_branch_def)
  have r: "format_block cfg0 id 0 ex_command_commented [] =
     Inr ([Alt [Cat [Cat [Cat [Words ''hello'' None], Text '':''],
                 Nest 4 [Line,
                         Join Line [Cat [Text ''#'', Words '' a'' (Some False)],
                                    Words ''x'' (Some True)],
                         Line]],
               Fail]], [])"
    by code_simp
  from short_layout_iff_one_child [OF c r] c show ?thesis by blast
qed

text \<open>
  C4. The handler of \<open>TalonNot\<close> passes the \<open>under_not\<close> it was given to its first
  child that is not a comment and sets \<open>under_not = True\<close> only afterwards. For
  \<open>not app: chrome\<close> in a context the line has no \<open>not\<close>; the second equation shows
  the line that \<open>under_not = True\<close> gives.
\<close>

theorem not_keeps_first_child_unnegated:
  "format_block_match cfg0 id 0 False False ex_not [] =
     Inr ([Alt [Cat [Cat [Cat [Words ''app'' (Some True)], Text '':''], Space,
                     Words ''chrome'' (Some True)]]], [])
   \<and> format_block_match cfg0 id 0 False True ex_match [] =
     Inr ([Alt [Cat [Cat [Cat [Text ''not'', Space, Words ''app'' (Some True)], Text '':''], Space,
                     Words ''chrome'' (Some True)]]], [])"
  by code_simp




lemma format_TalonSourceFile:
  "class_name node = ''TalonSourceFile'' \<Longrightarrow>
     format self ct node buf =
       bind (format_block self ct 0 node buf) (\<lambda>(lines, buf1). Inr (Join Line lines, buf1))"
  by (subst format.simps) simp

lemma format_block_TalonSourceFile:
  "class_name node = ''TalonSourceFile'' \<Longrightarrow>
     format_block self ct n node buf =
        bind (for_loop (\<lambda>st child b.
                 source_file_step self ct n (\<lambda>m b'. format_block self ct m child b') st child b)
                \<lparr>in_header = True, comment_buffer = [], short_command_buffer = []\<rparr>
                (children node) buf) (\<lambda>(out1, st1, buf1).
          case source_file_end self ct n st1 buf1 of
            (out2, st2, buf2) \<Rightarrow> Inr (out1 @ out2, buf2))"
  by (subst format_block.simps) simp

lemma format_block_TalonSettings:
  "class_name node = ''TalonSettings'' \<Longrightarrow>
     format_block self ct n node buf =
        bind (get_node_with_type (children node) (Some ''TalonBlock'') buf)
          (\<lambda>(block, buf1).
            case get_comments buf1 of
              (comments, buf2) \<Rightarrow>
                bind (format self ct (block_with_comments comments block) buf2)
                  (\<lambda>(d, buf3).
                    case emit n (Cat [Text ''settings():'', Space,
                                      Nest (indent_size self) [Line, d]]) buf3 of
                      (out, buf4) \<Rightarrow> Inr (out, buf4)))"
  by (subst format_block.simps) simp

lemma format_sole_child:
  assumes "class_name node \<in> set [''TalonParenthesizedExpression'', ''TalonNumber'',
       ''TalonInterpolation'', ''TalonOptional'', ''TalonParenthesizedRule'', ''TalonRepeat'',
       ''TalonRepeat1'']"
    and "get_node (children node) buf = Inl e"
  shows "format self ct node buf = Inl e"
proof -
  consider "class_name node = ''TalonParenthesizedExpression''"
    | "class_name node = ''TalonNumber''"
    | "class_name node = ''TalonInterpolation''"
    | "class_name node = ''TalonOptional''"
    | "class_name node = ''TalonParenthesizedRule''"
    | "class_name node = ''TalonRepeat''"
    | "class_name node = ''TalonRepeat1''"
    using assms(1) by auto
  then show ?thesis
    by cases (simp_all add: format.simps [of self ct node buf] assms(2))
qed

lemma for_loop_append:
  "for_loop body s (xs @ ys) buf =
     bind (for_loop body s xs buf) (\<lambda>(out1, s1, buf1).
       bind (for_loop body s1 ys buf1) (\<lambda>(out2, s2, buf2). Inr (out1 @ out2, s2, buf2)))"
proof (induction xs arbitrary: s buf)
  case Nil
  show ?case by (cases "for_loop body s ys buf") auto
next
  case (Cons x xs)
  show ?case
  proof (cases "body s x buf")
    case (Inl e)
    then show ?thesis by simp
  next
    case (Inr r)
    obtain o1 s1 b1 where r: "r = (o1, s1, b1)" by (cases r) auto
    show ?thesis
    proof (cases "for_loop body s1 xs b1")
      case (Inl e)
      with Inr r show ?thesis by (simp add: Cons.IH)
    next
      case (Inr r2)
      obtain o2 s2 b2 where "r2 = (o2, s2, b2)" by (cases r2) auto
      with Inr \<open>body s x buf = Inr r\<close> r show ?thesis
        by (cases "for_loop body s2 ys b2") (auto simp: Cons.IH)
    qed
  qed
qed



lemma store_comments_typed:
  "\<forall>x \<in> set cs. \<not> is_comment x \<longrightarrow> isinstance x t \<Longrightarrow>
     store_comments cs t buf = Inr (non_comments cs, buf @ map node_info (filter is_comment cs))"
  by (induction cs arbitrary: buf) (auto simp: non_comments_def)

lemma get_node_with_type_assertion:
  "\<forall>x \<in> set cs. \<not> is_comment x \<longrightarrow> isinstance x t \<Longrightarrow> length (non_comments cs) \<noteq> 1 \<Longrightarrow>
     get_node_with_type cs t buf =
       Inl (AssertionError (only_one_non_comment_child (type_names (non_comments cs))
              (non_comments cs)))"
  by (simp add: get_node_with_type_def store_comments_typed type_names_def)

text \<open>
  C8, as claimed: a node that must have one child that is not a comment raises the
  structural assertion when it has none or several. A \<open>TalonSettings\<close> with a block and an
  error node has two such children, and \<open>store_comments\<close> raises \<open>TypeError\<close> on the second
  one (it is not a \<open>TalonBlock\<close>) before the assertion is reached.
\<close>

theorem structural_assertion_type_error_counterexample:
  "length (non_comments (children ex_settings_two)) = 2
   \<and> format_block cfg0 id 0 ex_settings_two [] = Inl (TypeError ''TalonError'')"
  by code_simp

text \<open>
  C8, amended: the assertion failure, which names the \<open>type_name\<close> of every child that is
  not a comment, is raised when the number of such children is not one and each of them
  has the class the node asks for: any class for the nodes formatted through \<open>get_node\<close>,
  \<open>TalonBlock\<close> for \<open>TalonSettings\<close>.
\<close>

theorem structural_assertion:
  assumes "length (non_comments (children node)) \<noteq> 1"
  shows "(class_name node \<in> set [''TalonParenthesizedExpression'', ''TalonNumber'',
             ''TalonInterpolation'', ''TalonOptional'', ''TalonParenthesizedRule'',
             ''TalonRepeat'', ''TalonRepeat1''] \<longrightarrow>
           format self ct node buf =
             Inl (AssertionError (only_one_non_comment_child
                    (type_names (non_comments (children node)))
                    (non_comments (children node)))))
       \<and> (class_name node = ''TalonSettings''
            \<and> (\<forall>x \<in> set (children node). \<not> is_comment x \<longrightarrow> class_name x = ''TalonBlock'') \<longrightarrow>
           format_block self ct n node buf =
             Inl (AssertionError (only_one_non_comment_child
                    (type_names (non_comments (children node)))
                    (non_comments (children node)))))"
proof (intro conjI impI)
  assume c: "class_name node \<in> set [''TalonParenthesizedExpression'', ''TalonNumber'',
             ''TalonInterpolation'', ''TalonOptional'', ''TalonParenthesizedRule'',
             ''TalonRepeat'', ''TalonRepeat1'']"
  have "get_node (children node) buf =
          Inl (AssertionError (only_one_non_comment_child
                 (type_names (non_comments (children node))) (non_comments (children node))))"
    unfolding get_node_def using assms
    by (intro get_node_with_type_assertion) (simp_all add: isinstance_def)
  then show "format self ct node buf =
          Inl (AssertionError (only_one_non_comment_child
                 (type_names (non_comments (children node))) (non_comments (children node))))"
    by (rule format_sole_child [OF c])
next
  assume "class_name node = ''TalonSettings''
            \<and> (\<forall>x \<in> set (children node). \<not> is_comment x \<longrightarrow> class_name x = ''TalonBlock'')"
  then show "format_block self ct n node buf =
          Inl (AssertionError (only_one_non_comment_child
                 (type_names (non_comments (children node))) (non_comments (children node))))"
    using assms
    by (simp add: format_block_TalonSettings get_node_with_type_assertion isinstance_def)
qed

theorem structural_assertion_witness:
  "length (non_comments (children ex_paren_empty)) \<noteq> 1
   \<and> format cfg0 id ex_paren_empty [\<lparr>node_text = ''# b'', type_name = ''comment'',
         start_position = (0, 0), end_position = (0, 0)\<rparr>] =
       Inl (AssertionError (only_one_non_comment_child [] []))"
proof -
  have l: "length (non_comments (children ex_paren_empty)) \<noteq> 1"
    by (simp add: ex_paren_empty_def mk_branch_def non_comments_def ex_comment_a_def
          mk_leaf_def is_comment_def)
  have n: "non_comments (children ex_paren_empty) = []"
    by (simp add: ex_paren_empty_def mk_branch_def non_comments_def ex_comment_a_def
          mk_leaf_def is_comment_def)
  have c: "class_name ex_paren_empty = ''TalonParenthesizedExpression''"
    by (simp add: ex_paren_empty_def mk_branch_def)
  from structural_assertion [OF l, of cfg0 id "[\<lparr>node_text = ''# b'', type_name = ''comment'',
         start_position = (0, 0), end_position = (0, 0)\<rparr>]"] l c n
  show ?thesis by (simp add: type_names_def)
qed





text \<open>
  C6, as claimed: with an integer \<open>N\<close> the short commands are buffered and go through
  \<open>create_tables\<close> as with \<open>True\<close>. With a \<open>create_tables\<close> that packs its rows into one
  \<open>Cat\<close>, the file \<open>hello: x\<close> shows the difference: under \<open>True\<close> the command arrives
  packed, under \<open>32\<close> it arrives as it was yielded.
\<close>

theorem integer_alignment_not_buffered_counterexample:
  "format cfgT (\<lambda>ds. [Cat ds]) ex_file_one_command [] =
     Inr (Join Line
       [Text ''-'',
        Cat [Alt [Cat [Cat [Cat [Words ''hello'' None], Text '':''],
                       Nest 4 [Line, Join Line [Words ''x'' (Some True)], Line]],
                  Row [Cat [Cat [Words ''hello'' None], Text '':''],
                       Join Line [Words ''x'' (Some True)]] ''command'' None]]], [])
   \<and> format cfgN (\<lambda>ds. [Cat ds]) ex_file_one_command [] =
     Inr (Join Line
       [Text ''-'',
        Alt [Cat [Cat [Cat [Words ''hello'' None], Text '':''],
                  Nest 4 [Line, Join Line [Words ''x'' (Some True)], Line]],
             Row [Cat [Cat [Words ''hello'' None], Text '':''],
                  Join Line [Words ''x'' (Some True)]] ''command'' (Some [32])]], [])"
  by code_simp

text \<open>
  C6, amended: the loop over the source file tests \<open>align_short_commands is True\<close>. With
  an integer \<open>w\<close> every turn of the loop and the end of the loop do what they do with
  \<open>False\<close>, whatever \<open>create_tables\<close> is: nothing is buffered, and every command is yielded
  where it stands. The short layout of a command is then a row of kind \<open>command\<close> with
  \<open>min_col_widths = (w,)\<close> (for \<open>w = 0\<close>, which is falsy, the plain layout).
\<close>

theorem integer_alignment_not_buffered:
  assumes "align_short_commands self = Width w"
  shows "source_file_step self ct n fb st child buf
           = source_file_step (self\<lparr>align_short_commands := Flag False\<rparr>) ct' n fb st child buf
       \<and> source_file_end self ct n st buf
           = source_file_end (self\<lparr>align_short_commands := Flag False\<rparr>) ct' n st buf
       \<and> (source_file_step self ct n fb st child buf = Inr (out, st1, buf1) \<longrightarrow>
            short_command_buffer st1 = short_command_buffer st)
       \<and> format_short_command self rule script =
           (if w = 0 then Cat [Cat [rule, Text '':''], Space, script]
            else Row [Cat [rule, Text '':''], script] ''command'' (Some [w]))"
proof -
  have t: "is_True (align_short_commands self) = False"
    using assms by simp
  have "source_file_step self ct n fb st child buf = Inr (out, st1, buf1) \<Longrightarrow>
          short_command_buffer st1 = short_command_buffer st"
    unfolding source_file_step_def t
    by (auto simp: end_header_def clear_comment_buffer_def bind_eq_Inr
          split: prod.splits if_splits)
  then show ?thesis
    using assms
    by (simp add: source_file_step_def source_file_end_def format_short_command_def)
qed

theorem integer_alignment_not_buffered_witness:
  "align_short_commands cfgN = Width 32
   \<and> source_file_step cfgN (\<lambda>ds. [Cat ds]) 0 (\<lambda>m b. format_block cfgN id m ex_command b)
         initial_state ex_command []
       = source_file_step (cfgN\<lparr>align_short_commands := Flag False\<rparr>) id 0
           (\<lambda>m b. format_block cfgN id m ex_command b) initial_state ex_command []
   \<and> format_short_command cfgN Empty Empty
       = Row [Cat [Empty, Text '':''], Empty] ''command'' (Some [32])"
proof -
  have h: "align_short_commands cfgN = Width 32"
    by (simp add: cfgN_def)
  from integer_alignment_not_buffered [OF h, of "\<lambda>ds. [Cat ds]" 0
         "\<lambda>m b. format_block cfgN id m ex_command b" initial_state ex_command "[]" id] h
  show ?thesis by simp
qed

lemma emit_0 [simp]: "emit 0 d buf = ([d], buf)"
  by (simp add: emit_def)

lemma emit_list_0 [simp]: "emit_list 0 ds buf = (ds, buf)"
  by (induction ds) simp_all

lemma short_buffer_idle: "short_command_buffer st = [] \<Longrightarrow> st\<lparr>short_command_buffer := []\<rparr> = st"
  by simp

lemma step_in_header:
  assumes "in_header st" and "short_command_buffer st = []" and "\<not> body_only c"
  shows "source_file_step self ct 0 (\<lambda>m b'. fb m c b') st c buf = header_step fb st c buf"
proof -
  have nc: "class_name c \<noteq> ''TalonCommand''"
    using assms(3) by (auto simp: body_only_def)
  show ?thesis
    using assms nc
    by (cases "fb 0 c buf")
       (auto simp: source_file_step_def header_step_def clear_comment_buffer_def
          clear_short_command_buffer_def)
qed

lemma header_step_state:
  "header_step fb st c buf = Inr (out, st1, buf1) \<Longrightarrow>
     in_header st1 = in_header st \<and> short_command_buffer st1 = short_command_buffer st"
  by (auto simp: header_step_def bind_eq_Inr split: if_splits)

lemma header_loop_state:
  "for_loop (header_step fb) st cs buf = Inr (out, st1, buf1) \<Longrightarrow>
     in_header st1 = in_header st \<and> short_command_buffer st1 = short_command_buffer st"
proof (induction cs arbitrary: st buf out)
  case Nil
  then show ?case by simp
next
  case (Cons c cs)
  from Cons.prems obtain o1 s1 b1 o2 where
    h: "header_step fb st c buf = Inr (o1, s1, b1)"
    and r: "for_loop (header_step fb) s1 cs b1 = Inr (o2, st1, buf1)"
    by (auto simp: bind_eq_Inr)
  from Cons.IH [OF r] header_step_state [OF h] show ?case by simp
qed

lemma loop_in_header:
  "in_header st \<Longrightarrow> short_command_buffer st = [] \<Longrightarrow> \<forall>c \<in> set cs. \<not> body_only c \<Longrightarrow>
     for_loop (\<lambda>st child b. source_file_step self ct 0 (\<lambda>m b'. fb m child b') st child b)
       st cs buf
     = for_loop (header_step fb) st cs buf"
proof (induction cs arbitrary: st buf)
  case Nil
  then show ?case by simp
next
  case (Cons c cs)
  have s: "source_file_step self ct 0 (\<lambda>m b'. fb m c b') st c buf = header_step fb st c buf"
    using Cons.prems by (intro step_in_header) simp_all
  show ?case
  proof (cases "header_step fb st c buf")
    case (Inl e)
    with s show ?thesis by simp
  next
    case (Inr r)
    obtain o1 s1 b1 where r: "r = (o1, s1, b1)" by (cases r) auto
    from header_step_state [of fb st c buf o1 s1 b1] Inr r Cons.prems
    have "in_header s1" and "short_command_buffer s1 = []" by simp_all
    then have "for_loop (\<lambda>st child b.
                  source_file_step self ct 0 (\<lambda>m b'. fb m child b') st child b) s1 cs b1
               = for_loop (header_step fb) s1 cs b1"
      using Cons.prems by (intro Cons.IH) simp_all
    with s Inr r show ?thesis by simp
  qed
qed

lemma step_in_body:
  assumes "\<not> in_header st"
  shows "source_file_step self ct 0 (\<lambda>m b'. fb m c b') st c buf = body_step self ct fb st c buf"
  using assms
  by (cases "fb 0 c buf"; cases "is_short_command c")
     (auto simp: source_file_step_def body_step_def clear_short_command_buffer_def)

lemma body_step_state:
  "body_step self ct fb st c buf = Inr (out, st1, buf1) \<Longrightarrow> in_header st1 = in_header st"
  by (auto simp: body_step_def bind_eq_Inr split: if_splits)

lemma loop_in_body:
  "\<not> in_header st \<Longrightarrow>
     for_loop (\<lambda>st child b. source_file_step self ct 0 (\<lambda>m b'. fb m child b') st child b)
       st cs buf
     = for_loop (body_step self ct fb) st cs buf"
proof (induction cs arbitrary: st buf)
  case Nil
  then show ?case by simp
next
  case (Cons c cs)
  have s: "source_file_step self ct 0 (\<lambda>m b'. fb m c b') st c buf
             = body_step self ct fb st c buf"
    using Cons.prems by (rule step_in_body)
  show ?case
  proof (cases "body_step self ct fb st c buf")
    case (Inl e)
    with s show ?thesis by simp
  next
    case (Inr r)
    obtain o1 s1 b1 where r: "r = (o1, s1, b1)" by (cases r) auto
    from body_step_state [of self ct fb st c buf o1 s1 b1] Inr r Cons.prems
    have "\<not> in_header s1" by simp
    then have "for_loop (\<lambda>st child b.
                  source_file_step self ct 0 (\<lambda>m b'. fb m child b') st child b) s1 cs b1
               = for_loop (body_step self ct fb) s1 cs b1"
      by (rule Cons.IH)
    with s Inr r show ?thesis by simp
  qed
qed

lemma body_loop_state:
  "for_loop (body_step self ct fb) st cs buf = Inr (out, st1, buf1) \<Longrightarrow>
     in_header st1 = in_header st"
proof (induction cs arbitrary: st buf out)
  case Nil
  then show ?case by simp
next
  case (Cons c cs)
  from Cons.prems obtain o1 s1 b1 o2 where
    h: "body_step self ct fb st c buf = Inr (o1, s1, b1)"
    and r: "for_loop (body_step self ct fb) s1 cs b1 = Inr (o2, st1, buf1)"
    by (auto simp: bind_eq_Inr)
  from Cons.IH [OF r] body_step_state [OF h] show ?case by simp
qed

lemma step_ends_header:
  assumes "in_header st" and "body_only c"
  shows "source_file_step self ct 0 (\<lambda>m b'. fb m c b') st c buf
           = bind (body_step self ct fb (st\<lparr>in_header := False, comment_buffer := []\<rparr>) c buf)
               (\<lambda>(out, st1, buf1). Inr (Text ''-'' # comment_buffer st @ out, st1, buf1))"
proof -
  have nc: "\<not> is_comment c" "class_name c \<noteq> ''TalonContext''"
    using assms(2) by (auto simp: body_only_def is_comment_def)
  show ?thesis
    using assms nc
    by (cases "fb 0 c buf"; cases "is_short_command c")
       (auto simp: source_file_step_def body_step_def clear_short_command_buffer_def
          end_header_def clear_comment_buffer_def)
qed

lemma source_file_end_in_header:
  "in_header st \<Longrightarrow> short_command_buffer st = [] \<Longrightarrow>
     source_file_end self ct 0 st buf
       = (Text ''-'' # comment_buffer st, st\<lparr>comment_buffer := []\<rparr>, buf)"
  by (simp add: source_file_end_def clear_comment_buffer_def clear_short_command_buffer_def)

lemma source_file_end_in_body:
  "\<not> in_header st \<Longrightarrow>
     fst (source_file_end self ct 0 st buf)
       = (if is_True (align_short_commands self) \<and> short_command_buffer st \<noteq> []
          then ct (short_command_buffer st) else [])
     \<and> snd (snd (source_file_end self ct 0 st buf)) = buf"
  by (simp add: source_file_end_def clear_short_command_buffer_def)

text \<open>
  C1, as claimed: \<open>-\<close> comes immediately before the first body-only node, and at the end
  of the output when there is none. The comments buffered in the header are yielded after
  \<open>-\<close>: a file that holds one comment ends with the comment, and in a file that holds a
  comment and a command the comment stands between \<open>-\<close> and the command.
\<close>

theorem separator_not_last_counterexample:
  "format cfg0 id ex_file_comment_only [] =
     Inr (Join Line [Text ''-'', Cat [Text ''#'', Words '' a'' (Some False)]], [])
   \<and> format cfg0 id ex_file_comment_command [] =
     Inr (Join Line
       [Text ''-'', Cat [Text ''#'', Words '' a'' (Some False)],
        Alt [Cat [Cat [Cat [Words ''hello'' None], Text '':''],
                  Nest 4 [Line, Join Line [Words ''x'' (Some True)], Line]],
             Cat [Cat [Cat [Words ''hello'' None], Text '':''], Space,
                  Join Line [Words ''x'' (Some True)]]]], [])"
  by code_simp

text \<open>
  C1, amended: when a source file is formatted without error, its lines are, in this
  order: the lines of the children before the first body-only node (\<open>header_step\<close>: a
  context with the comments buffered before it, any other node as it is), the line \<open>-\<close>,
  the comments of the header still buffered, the lines of the first body-only node and of
  all children after it (\<open>body_step\<close>), and the short commands left in their buffer.
  \<open>-\<close> is yielded at this one place; with no body-only node it comes after the lines of
  all children and only the buffered comments follow. For a file that holds only
  a command, the header part and the buffered comments are empty, so the lines start with
  \<open>-\<close>, followed by what the command yields.
\<close>

theorem separator_once:
  assumes "class_name file = ''TalonSourceFile''"
    and "format self ct file buf = Inr (d, buf')"
  shows "\<exists>out_h st_h buf_h out_b st_b.
           for_loop (header_step (format_block self ct)) initial_state
             (takeWhile (\<lambda>c. \<not> body_only c) (children file)) buf = Inr (out_h, st_h, buf_h)
         \<and> for_loop (body_step self ct (format_block self ct))
             (st_h\<lparr>in_header := False, comment_buffer := []\<rparr>)
             (dropWhile (\<lambda>c. \<not> body_only c) (children file)) buf_h = Inr (out_b, st_b, buf')
         \<and> d = Join Line
                 (out_h @ [Text ''-''] @ comment_buffer st_h @ out_b
                    @ (if is_True (align_short_commands self) \<and> short_command_buffer st_b \<noteq> []
                       then ct (short_command_buffer st_b) else []))
         \<and> (children file \<noteq> [] \<and> body_only (hd (children file)) \<longrightarrow>
              out_h = [] \<and> comment_buffer st_h = [])"
proof -
  let ?step = "\<lambda>st child b.
      source_file_step self ct 0 (\<lambda>m b'. format_block self ct m child b') st child b"
  let ?hs = "takeWhile (\<lambda>c. \<not> body_only c) (children file)"
  let ?bs = "dropWhile (\<lambda>c. \<not> body_only c) (children file)"
  from assms have "bind (format_block self ct 0 file buf)
                      (\<lambda>(lines, buf1). Inr (Join Line lines, buf1)) = Inr (d, buf')"
    by (simp add: format_TalonSourceFile)
  then obtain lines where fb: "format_block self ct 0 file buf = Inr (lines, buf')"
    and dl: "d = Join Line lines"
    by (auto simp: bind_eq_Inr)
  from fb obtain out1 st1 buf1 where
    loop: "for_loop ?step initial_state (children file) buf = Inr (out1, st1, buf1)"
    and e: "lines = out1 @ fst (source_file_end self ct 0 st1 buf1)"
    and b: "buf' = snd (snd (source_file_end self ct 0 st1 buf1))"
    unfolding format_block_TalonSourceFile [OF assms(1)] initial_state_def [symmetric]
    by (auto simp: bind_eq_Inr split_beta)
  from dl e have d: "d = Join Line (out1 @ fst (source_file_end self ct 0 st1 buf1))"
    by simp
  have "children file = ?hs @ ?bs" by simp
  with loop have "for_loop ?step initial_state (?hs @ ?bs) buf = Inr (out1, st1, buf1)"
    by simp
  then have "bind (for_loop ?step initial_state ?hs buf) (\<lambda>(o1, s1, b1).
               bind (for_loop ?step s1 ?bs b1) (\<lambda>(o2, s2, b2). Inr (o1 @ o2, s2, b2)))
             = Inr (out1, st1, buf1)"
    by (simp only: for_loop_append)
  then obtain out_h st_h buf_h out2 where
    h: "for_loop ?step initial_state ?hs buf = Inr (out_h, st_h, buf_h)"
    and r: "for_loop ?step st_h ?bs buf_h = Inr (out2, st1, buf1)"
    and o: "out1 = out_h @ out2"
    by (auto simp: bind_eq_Inr)
  have nb: "\<forall>c \<in> set ?hs. \<not> body_only c"
    by (auto dest: set_takeWhileD)
  have i0: "in_header initial_state" "short_command_buffer initial_state = []"
    by (simp_all add: initial_state_def)
  have hh: "for_loop (header_step (format_block self ct)) initial_state ?hs buf
              = Inr (out_h, st_h, buf_h)"
    using h loop_in_header [OF i0 nb, of self ct "format_block self ct" buf]
    by simp
  from header_loop_state [OF hh] i0
  have inv: "in_header st_h" "short_command_buffer st_h = []"
    by simp_all
  have first: "children file \<noteq> [] \<and> body_only (hd (children file)) \<longrightarrow>
                 out_h = [] \<and> comment_buffer st_h = []"
  proof
    assume "children file \<noteq> [] \<and> body_only (hd (children file))"
    then have "?hs = []"
      by (cases "children file") simp_all
    with hh show "out_h = [] \<and> comment_buffer st_h = []"
      by (auto simp: initial_state_def)
  qed
  show ?thesis
  proof (cases ?bs)
    case Nil
    from r [unfolded Nil] have e: "out2 = []" "st1 = st_h" "buf1 = buf_h" by simp_all
    have bn: "for_loop (body_step self ct (format_block self ct))
            (st_h\<lparr>in_header := False, comment_buffer := []\<rparr>) ?bs buf_h
          = Inr ([], st_h\<lparr>in_header := False, comment_buffer := []\<rparr>, buf')"
      using e b inv by (simp add: Nil source_file_end_in_header)
    have dn: "d = Join Line (out_h @ [Text ''-''] @ comment_buffer st_h @ [] @ [])"
      using d o e inv by (simp add: source_file_end_in_header)
    show ?thesis
      apply (rule exI [of _ out_h])
      apply (rule exI [of _ st_h])
      apply (rule exI [of _ buf_h])
      apply (rule exI [of _ "[]"])
      apply (rule exI [of _ "st_h\<lparr>in_header := False, comment_buffer := []\<rparr>"])
      apply (insert hh bn dn first inv)
      apply simp
      done
  next
    case (Cons c cs)
    have bo: "body_only c"
    proof -
      have "\<not> \<not> body_only (hd ?bs)"
        by (rule hd_dropWhile) (simp add: Cons)
      then show ?thesis by (simp add: Cons)
    qed
    from r [unfolded Cons] obtain o1 s1 b1 o2 where
      s: "?step st_h c buf_h = Inr (o1, s1, b1)"
      and r2: "for_loop ?step s1 cs b1 = Inr (o2, st1, buf1)"
      and o2: "out2 = o1 @ o2"
      by (auto simp: bind_eq_Inr)
    from s step_ends_header [OF inv(1) bo, of self ct "format_block self ct" buf_h]
    obtain o3 where
      bs: "body_step self ct (format_block self ct)
             (st_h\<lparr>in_header := False, comment_buffer := []\<rparr>) c buf_h = Inr (o3, s1, b1)"
      and o1: "o1 = Text ''-'' # comment_buffer st_h @ o3"
      by (auto simp: bind_eq_Inr)
    from body_step_state [OF bs] have n1: "\<not> in_header s1" by simp
    from r2 loop_in_body [OF n1, of self ct "format_block self ct" cs b1]
    have bl: "for_loop (body_step self ct (format_block self ct)) s1 cs b1
                = Inr (o2, st1, buf1)"
      by simp
    from body_loop_state [OF bl] n1 have n2: "\<not> in_header st1" by simp
    have bc: "for_loop (body_step self ct (format_block self ct))
            (st_h\<lparr>in_header := False, comment_buffer := []\<rparr>) ?bs buf_h
          = Inr (o3 @ o2, st1, buf')"
      using bs bl b source_file_end_in_body [OF n2, of self ct buf1] by (simp add: Cons)
    have dc: "d = Join Line
                 (out_h @ [Text ''-''] @ comment_buffer st_h @ (o3 @ o2)
                    @ (if is_True (align_short_commands self) \<and> short_command_buffer st1 \<noteq> []
                       then ct (short_command_buffer st1) else []))"
      using d o o2 o1 source_file_end_in_body [OF n2, of self ct buf1] by simp
    show ?thesis
      apply (rule exI [of _ out_h])
      apply (rule exI [of _ st_h])
      apply (rule exI [of _ buf_h])
      apply (rule exI [of _ "o3 @ o2"])
      apply (rule exI [of _ st1])
      apply (insert hh bc dc first)
      apply simp
      done
  qed
qed

theorem separator_once_witness:
  "class_name ex_file_comment_command = ''TalonSourceFile''
   \<and> (\<exists>out_h st_h buf_h out_b st_b.
           for_loop (header_step (format_block cfg0 id)) initial_state
             (takeWhile (\<lambda>c. \<not> body_only c) (children ex_file_comment_command)) []
               = Inr (out_h, st_h, buf_h)
         \<and> for_loop (body_step cfg0 id (format_block cfg0 id))
             (st_h\<lparr>in_header := False, comment_buffer := []\<rparr>)
             (dropWhile (\<lambda>c. \<not> body_only c) (children ex_file_comment_command)) buf_h
               = Inr (out_b, st_b, [])
         \<and> Join Line
             [Text ''-'', Cat [Text ''#'', Words '' a'' (Some False)],
              Alt [Cat [Cat [Cat [Words ''hello'' None], Text '':''],
                        Nest 4 [Line, Join Line [Words ''x'' (Some True)], Line]],
                   Cat [Cat [Cat [Words ''hello'' None], Text '':''], Space,
                        Join Line [Words ''x'' (Some True)]]]]
           = Join Line
                 (out_h @ [Text ''-''] @ comment_buffer st_h @ out_b
                    @ (if is_True (align_short_commands cfg0) \<and> short_command_buffer st_b \<noteq> []
                       then id (short_command_buffer st_b) else [])))"
proof -
  have c: "class_name ex_file_comment_command = ''TalonSourceFile''"
    by (simp add: ex_file_comment_command_def mk_branch_def)
  have r: "format cfg0 id ex_file_comment_command [] =
     Inr (Join Line
       [Text ''-'', Cat [Text ''#'', Words '' a'' (Some False)],
        Alt [Cat [Cat [Cat [Words ''hello'' None], Text '':''],
                  Nest 4 [Line, Join Line [Words ''x'' (Some True)], Line]],
             Cat [Cat [Cat [Words ''hello'' None], Text '':''], Space,
                  Join Line [Words ''x'' (Some True)]]]], [])"
    by code_simp
  from separator_once [OF c r] c show ?thesis by blast
qed







lemma snd_emit_Suc [simp]: "snd (emit (Suc n) d buf) = []"
  by (simp add: emit_def)

lemma snd_get_formatted_comments [simp]: "snd (get_formatted_comments n buf) = []"
  by (simp add: get_formatted_comments_def)






lemma statement_like_TalonComment [simp]: "statement_like (TalonComment i)"
  by (simp add: statement_like_def TalonComment_def)












end
